theory Spec2Isabelle
  imports Main "HOL-Library.Sublist" "HOL-Library.AList"
begin

section \<open>Strings\<close>

text \<open>
  A Python \<open>str\<close> is a sequence of Unicode code points. The program's literals are mostly
  Chinese text, and \<open>startswith\<close>, \<open>lstrip\<close>, \<open>strip\<close> and the regular expression of
  \<open>parse_mention\<close> all work on code points, so a string is modelled as the list of its
  code points.
\<close>

type_synonym ustring = "nat list"

definition asc :: "string \<Rightarrow> ustring" where
  \<comment> \<open>the code points of an ASCII literal\<close>
  "asc s = map of_char s"

definition is_space :: "nat \<Rightarrow> bool" where
  \<comment> \<open>\<open>str.isspace\<close> on one character; the class \<open>\s\<close> of \<open>re\<close> on a \<open>str\<close> pattern\<close>
  "is_space c \<longleftrightarrow>
     (9 \<le> c \<and> c \<le> 13) \<or> (28 \<le> c \<and> c \<le> 32) \<or> c = 133 \<or> c = 160 \<or> c = 5760 \<or>
     (8192 \<le> c \<and> c \<le> 8202) \<or> c = 8232 \<or> c = 8233 \<or> c = 8239 \<or> c = 8287 \<or> c = 12288"

definition ascii_word :: "nat \<Rightarrow> bool" where
  \<comment> \<open>\<open>[a-zA-Z0-9_]\<close>\<close>
  "ascii_word c \<longleftrightarrow>
     (48 \<le> c \<and> c \<le> 57) \<or> (65 \<le> c \<and> c \<le> 90) \<or> c = 95 \<or> (97 \<le> c \<and> c \<le> 122)"

definition is_word :: "(nat \<Rightarrow> bool) \<Rightarrow> nat \<Rightarrow> bool" where
  \<comment> \<open>The class \<open>\w\<close> of \<open>re\<close> on a \<open>str\<close> pattern: \<open>[a-zA-Z0-9_]\<close> in the ASCII range and
      the alphanumeric characters of the Unicode database beyond it. That table belongs to
      the Python runtime, not to the program: it is the parameter \<open>uw\<close>.\<close>
  "is_word uw c \<longleftrightarrow> (if c < 128 then ascii_word c else uw c)"

definition startswith :: "ustring \<Rightarrow> ustring \<Rightarrow> bool" where
  \<comment> \<open>\<open>s.startswith(p)\<close>\<close>
  "startswith s p \<longleftrightarrow> take (length p) s = p"

definition lstrip :: "ustring \<Rightarrow> ustring" where
  "lstrip s = dropWhile is_space s"

definition rstrip :: "ustring \<Rightarrow> ustring" where
  "rstrip s = rev (dropWhile is_space (rev s))"

definition strip :: "ustring \<Rightarrow> ustring" where
  "strip s = rstrip (lstrip s)"

fun str_nat :: "nat \<Rightarrow> ustring" where
  "str_nat n = (if n < 10 then [48 + n] else str_nat (n div 10) @ [48 + n mod 10])"

declare str_nat.simps [simp del]

definition str_int :: "int \<Rightarrow> ustring" where
  \<comment> \<open>\<open>str(n)\<close> for an \<open>int\<close>, as the f-strings render \<open>max_turns\<close>\<close>
  "str_int n = (if n < 0 then 45 # str_nat (nat (- n)) else str_nat (nat n))"

subsection \<open>The literals of the program\<close>

definition roster_header :: ustring where
  "roster_header =
   [32676, 32842, 25104, 21592, 21517, 21333, 65306, 10]"

definition roster_human :: ustring where
  "roster_human =
   [45, 32, 29992, 25143, 65288, 104, 117, 109, 97, 110, 65289, 65306]"

definition roster_robot :: ustring where
  "roster_robot =
   [45, 32, 26426, 22120, 20154, 65288, 114, 111, 98, 111, 116, 65289, 65306]"

definition identity_intro :: ustring where
  "identity_intro =
   [10, 20320, 26159, 26426, 22120, 20154, 65288, 114, 111, 98, 111, 116, 65289, 65292,
    21517, 23383, 26159, 32]"

definition contract_text :: ustring where
  "contract_text =
   [12290, 10, 20320, 30340, 23646, 24615, 65306, 10, 45, 32, 21487, 20197, 34987, 32, 64,
    32, 24182, 22238, 24212, 32, 64, 32, 28040, 24687, 10, 45, 32, 21487, 20197, 22238,
    24212, 20854, 20182, 32, 65, 73, 32, 30340, 28040, 24687, 65288, 26681, 25454, 31995,
    32479, 35774, 32622, 65289, 10, 45, 32, 21487, 20197, 22238, 24212, 20844, 24320,
    28040, 24687, 65288, 26681, 25454, 31995, 32479, 35774, 32622, 65289, 10, 10, 22312,
    36825, 20010, 32676, 32452, 32842, 22825, 20013, 65306, 10, 45, 32, 20320, 21482,
    33021, 30475, 21040, 32, 64, 20320, 32, 30340, 28040, 24687, 25110, 20844, 24320,
    28040, 24687, 65288, 26080, 32, 64, 32, 26631, 35760, 65289, 12290, 10, 45, 32, 22914,
    26524, 28040, 24687, 32, 64, 32, 20102, 20854, 20182, 26426, 22120, 20154, 65292,
    20320, 30475, 19981, 21040, 20063, 19981, 33021, 22238, 24212, 12290, 10, 45, 32,
    22914, 26524, 28040, 24687, 32, 64, 32, 20102, 20320, 65292, 20320, 24517, 39035,
    22238, 24212, 12290, 10, 45, 32, 22914, 26524, 28040, 24687, 26159, 20844, 24320,
    30340, 65288, 26080, 32, 64, 65289, 65292, 20320, 21487, 20197, 36873, 25321, 22238,
    24212, 65288, 26681, 25454, 31995, 32479, 35774, 32622, 65289, 12290, 10, 22238, 22797,
    26102, 30452, 25509, 21457, 34920, 20320, 30340, 35266, 28857, 65292, 19981, 35201,
    22312, 24320, 22836, 28155, 21152, 20320, 30340, 21517, 23383, 25110, 20219, 20309,
    21069, 32512, 65292, 20320, 30340, 21517, 23383, 20250, 33258, 21160, 26631, 35760,
    12290]"

definition persona_marker :: ustring where
  "persona_marker =
   [26426, 22120, 20154, 32]"

definition persona_infix :: ustring where
  "persona_infix =
   [32, 30340, 25552, 31034, 35789, 58, 32]"

definition system_name :: ustring where
  "system_name =
   [31995, 32479]"

definition default_user_name :: ustring where
  "default_user_name =
   [29992, 25143]"

definition your_name_is :: ustring where
  "your_name_is =
   [20320, 30340, 21517, 23383, 26159]"

definition full_stop :: ustring where
  "full_stop =
   [12290]"

definition response_failed :: ustring where
  "response_failed =
   [32, 21709, 24212, 22833, 36133, 58, 32]"

definition limit_reached_prefix :: ustring where
  "limit_reached_prefix =
   [24050, 36798, 21040, 26368, 22823, 65, 73, 23545, 35805, 36718, 27425, 40]"

definition limit_reached_ask_user :: ustring where
  "limit_reached_ask_user =
   [41, 12290, 35831, 29992, 25143, 21457, 36865, 28040, 24687, 20197, 32487, 32493, 12290]"

definition limit_reached_stopped :: ustring where
  "limit_reached_stopped =
   [41, 12290, 23545, 35805, 24050, 20572, 27490, 12290]"

section \<open>Data model\<close>

datatype Role = SYSTEM | USER | ASSISTANT | DEVELOPER | FUNCTION | TOOL

record Message =
  role :: Role
  content :: ustring
  name :: ustring
  target :: "ustring option"

text \<open>
  \<open>RobotConfig\<close>; its field \<open>name\<close> is \<open>robot_name\<close> here, since \<open>name\<close> is the sender
  field of \<open>Message\<close>.
\<close>

record RobotConfig =
  robot_name :: ustring
  prompt :: ustring
  prompt_file :: "ustring option"
  enabled :: bool
  auto_respond_to_ai :: bool
  auto_respond_to_all :: bool
  color :: "ustring option"

text \<open>
  \<open>active_robots\<close> is a \<open>dict\<close> from names to configurations. A Python \<open>dict\<close> iterates in
  insertion order and the program iterates over it, so it is an association list;
  \<open>d[k] = v\<close> is \<open>AList.update k v d\<close>, which keeps the place of a key already present.
\<close>

type_synonym robots = "(ustring \<times> RobotConfig) list"

definition has_key :: "ustring \<Rightarrow> robots \<Rightarrow> bool" where
  \<comment> \<open>\<open>k in d\<close>\<close>
  "has_key k d \<longleftrightarrow> k \<in> set (map fst d)"

section \<open>The mention parser\<close>

text \<open>
  \<open>re.match(r'^@(\w+)\s', content)\<close>. After the \<open>@\<close>, \<open>\w+\<close> is greedy and backtracks: the
  longest run of word characters is tried first, and a shorter one when no whitespace follows.
  \<open>word_then_space\<close> returns group 1 and the text after the match.
\<close>

fun word_then_space :: "(nat \<Rightarrow> bool) \<Rightarrow> ustring \<Rightarrow> (ustring \<times> ustring) option" where
  "word_then_space uw [] = None"
| "word_then_space uw (c # cs) =
     (if is_word uw c then
        (case word_then_space uw cs of
           Some (w, rest) \<Rightarrow> Some (c # w, rest)
         | None \<Rightarrow>
            (case cs of
               [] \<Rightarrow> None
             | d # ds \<Rightarrow> if is_space d then Some ([c], ds) else None))
      else None)"

definition mention_match :: "(nat \<Rightarrow> bool) \<Rightarrow> ustring \<Rightarrow> (ustring \<times> ustring) option" where
  "mention_match uw s =
     (case s of
        [] \<Rightarrow> None
      | c # cs \<Rightarrow> if c = 64 then word_then_space uw cs else None)"

text \<open>
  \<open>parse_mention\<close>. The pattern is anchored at the start of the string, so
  \<open>re.sub(mention_pattern, '', content)\<close> removes the one match found by \<open>re.match\<close> and
  nothing else. No branch trims the text.
\<close>

definition parse_mention ::
  "(nat \<Rightarrow> bool) \<Rightarrow> robots \<Rightarrow> ustring \<Rightarrow> ustring \<times> ustring option" where
  "parse_mention uw robots txt =
     (case mention_match uw txt of
        Some (tgt, cleaned_content) \<Rightarrow>
          if has_key tgt robots then (cleaned_content, Some tgt) else (txt, None)
      | None \<Rightarrow> (txt, None))"

section \<open>Configuration and the state of the application\<close>

text \<open>
  \<open>ConfigManager.main_config\<close>: the keys of \<open>default_main_config\<close>, which \<open>load_main_config\<close>
  merges under whatever the file holds, so every key is present.
\<close>

record config =
  api_key :: ustring
  base_url :: ustring
  model :: ustring
  timeout :: int
  proxy :: ustring
  default_robots :: "ustring list"
  user_name :: ustring
  allow_ai_conversations :: bool
  max_ai_conversation_turns :: int

definition default_main_config :: config where
  "default_main_config =
     \<lparr>api_key = [], base_url = asc ''https://api.openai.com/v1'', model = asc ''gpt-3.5-turbo'',
      timeout = 30, proxy = [], default_robots = [], user_name = default_user_name,
      allow_ai_conversations = True, max_ai_conversation_turns = 10\<rparr>"

text \<open>
  The fields of \<open>AIGroupChatGUI\<close> that the orchestration reads and writes. \<open>message_queue\<close>
  holds the messages put on the queue and not yet taken by the consumer; \<open>ai_client\<close> records
  only whether a client is set, which is all the orchestration tests.
\<close>

record gui_state =
  main_config :: config
  active_robots :: robots
  chat_history :: "Message list"
  message_queue :: "Message list"
  ai_client :: bool
  ai_conversation_turns :: int
  infinite_loop :: bool
  dev_mode :: bool
  ai_processing :: bool

definition initial_state :: "config \<Rightarrow> gui_state" where
  \<comment> \<open>\<open>AIGroupChatGUI.__init__\<close> before the robots are loaded\<close>
  "initial_state cfg =
     \<lparr>main_config = cfg, active_robots = [], chat_history = [], message_queue = [],
      ai_client = False, ai_conversation_turns = 0, infinite_loop = False, dev_mode = False,
      ai_processing = False\<rparr>"

section \<open>Loading the robots\<close>

definition persona_reminder :: "ustring \<Rightarrow> ustring \<Rightarrow> Message" where
  \<comment> \<open>the message of lines 597 to 601\<close>
  "persona_reminder rn p =
     \<lparr>role = SYSTEM, content = persona_marker @ rn @ persona_infix @ p, name = system_name,
      target = None\<rparr>"

definition roster_message :: "ustring \<Rightarrow> ustring \<Rightarrow> Message" where
  \<comment> \<open>the message of lines 603 to 619\<close>
  "roster_message info rn =
     \<lparr>role = SYSTEM, content = info @ identity_intro @ rn @ contract_text, name = system_name,
      target = None\<rparr>"

fun enable_loop :: "robots \<Rightarrow> robots \<Rightarrow> ustring \<Rightarrow> robots \<times> ustring" where
  "enable_loop [] act info = (act, info)"
| "enable_loop ((rn, rc) # rest) act info =
     (if enabled rc
      then enable_loop rest (AList.update rn rc act) (info @ roster_robot @ rn @ [10])
      else enable_loop rest act info)"

fun seed_loop :: "ustring \<Rightarrow> robots \<Rightarrow> Message list \<Rightarrow> Message list" where
  "seed_loop info [] h = h"
| "seed_loop info ((rn, rc) # rest) h =
     seed_loop info rest
       ((if prompt rc \<noteq> [] then h @ [persona_reminder rn (prompt rc)] else h)
        @ [roster_message info rn])"

definition load_all_robots_on_start :: "robots \<Rightarrow> gui_state \<Rightarrow> gui_state" where
  \<comment> \<open>\<open>all_robots\<close> is what \<open>config_manager.load_all_robots()\<close> reads from the robot files\<close>
  "load_all_robots_on_start all_robots s =
     (case enable_loop all_robots (active_robots s)
             (roster_header @ roster_human @ user_name (main_config s) @ [10]) of
        (act, info) \<Rightarrow>
          s\<lparr>active_robots := act, chat_history := seed_loop info act (chat_history s)\<rparr>)"

section \<open>The view of one robot\<close>

text \<open>
  Lines 795 to 839 of \<open>trigger_ai_responses\<close>: the message list sent for the robot
  \<open>rn\<close> with configuration \<open>rc\<close>. It starts with the synthesized system prompt and goes
  through \<open>chat_history\<close> in order.
\<close>

fun roster_loop :: "robots \<Rightarrow> ustring \<Rightarrow> ustring" where
  "roster_loop [] info = info"
| "roster_loop ((rn, rc) # rest) info = roster_loop rest (info @ roster_robot @ rn @ [10])"

definition system_prompt :: "gui_state \<Rightarrow> ustring \<Rightarrow> RobotConfig \<Rightarrow> ustring" where
  "system_prompt s rn rc =
     (if prompt rc \<noteq> [] then your_name_is @ rn @ full_stop @ prompt rc @ [10]
      else your_name_is @ rn @ full_stop @ [10])
     @ roster_loop (active_robots s)
         (roster_header @ roster_human @ user_name (main_config s) @ [10])
     @ identity_intro @ rn @ contract_text"

definition lead_message :: "gui_state \<Rightarrow> ustring \<Rightarrow> RobotConfig \<Rightarrow> Message" where
  "lead_message s rn rc =
     \<lparr>role = SYSTEM, content = system_prompt s rn rc, name = system_name, target = None\<rparr>"

fun history_loop :: "ustring \<Rightarrow> Message list \<Rightarrow> Message list \<Rightarrow> Message list" where
  "history_loop rn [] robot_specific_history = robot_specific_history"
| "history_loop rn (msg # rest) robot_specific_history =
     (if role msg = SYSTEM then
        (if startswith (content msg) persona_marker
         then history_loop rn rest robot_specific_history
         else history_loop rn rest (robot_specific_history @ [msg]))
      else if target msg = None then history_loop rn rest (robot_specific_history @ [msg])
      else if target msg = Some rn then history_loop rn rest (robot_specific_history @ [msg])
      else if name msg = rn then history_loop rn rest (robot_specific_history @ [msg])
      else history_loop rn rest robot_specific_history)"

definition robot_view :: "gui_state \<Rightarrow> ustring \<Rightarrow> RobotConfig \<Rightarrow> Message list" where
  "robot_view s rn rc = history_loop rn (chat_history s) [lead_message s rn rc]"

section \<open>The dispatch round\<close>

definition truthy :: "ustring option \<Rightarrow> bool" where
  \<comment> \<open>the truth value of an \<open>Optional[str]\<close>: \<open>None\<close> and the empty string are false\<close>
  "truthy t \<longleftrightarrow> (case t of None \<Rightarrow> False | Some x \<Rightarrow> x \<noteq> [])"

text \<open>Lines 768 to 778: the robots that answer \<open>last_message\<close>.\<close>

fun responding_loop :: "Message \<Rightarrow> bool \<Rightarrow> robots \<Rightarrow> robots \<Rightarrow> robots" where
  "responding_loop last_message is_ai_message [] responding = responding"
| "responding_loop last_message is_ai_message ((rn, rc) # rest) responding =
     (if rn = name last_message
      then responding_loop last_message is_ai_message rest responding
      else if truthy (target last_message) \<and> target last_message \<noteq> Some rn
      then responding_loop last_message is_ai_message rest responding
      else if is_ai_message \<and> \<not> auto_respond_to_ai rc
      then responding_loop last_message is_ai_message rest responding
      else if \<not> truthy (target last_message) \<and> \<not> auto_respond_to_all rc
      then responding_loop last_message is_ai_message rest responding
      else responding_loop last_message is_ai_message rest (responding @ [(rn, rc)]))"

definition responding_robots :: "gui_state \<Rightarrow> Message \<Rightarrow> bool \<Rightarrow> robots" where
  "responding_robots s last_message is_ai_message =
     responding_loop last_message is_ai_message (active_robots s) []"

text \<open>
  The completion boundary. \<open>chat_completion\<close> is a network call: it is the parameter \<open>api\<close>,
  which for a robot name and the message list of the request either raises (with the text
  of the exception) or returns the messages of \<open>response.choices\<close>.
\<close>

datatype completion = Raised ustring | Choices "Message list"

type_synonym boundary = "ustring \<Rightarrow> Message list \<Rightarrow> completion"

definition process_reply :: "(nat \<Rightarrow> bool) \<Rightarrow> robots \<Rightarrow> ustring \<Rightarrow> ustring \<Rightarrow> Message" where
  \<comment> \<open>lines 856 to 867: the mention is parsed first, the name prefix is removed afterwards\<close>
  "process_reply uw robots rn reply =
     (case parse_mention uw robots reply of
        (c, tgt) \<Rightarrow>
          \<lparr>role = ASSISTANT,
           content = (if startswith c (rn @ [58]) then lstrip (drop (length (rn @ [58])) c) else c),
           name = rn, target = tgt\<rparr>)"

definition failure_message :: "ustring \<Rightarrow> ustring \<Rightarrow> Message" where
  "failure_message rn e =
     \<lparr>role = SYSTEM, content = rn @ response_failed @ e, name = system_name, target = None\<rparr>"

definition respond_one ::
  "(nat \<Rightarrow> bool) \<Rightarrow> boundary \<Rightarrow> gui_state \<Rightarrow> ustring \<Rightarrow> RobotConfig \<Rightarrow> Message list" where
  \<comment> \<open>lines 795 to 882, one pass of the loop body: the messages it puts on the queue\<close>
  "respond_one uw api s rn rc =
     (case api rn (robot_view s rn rc) of
        Raised e \<Rightarrow> [failure_message rn e]
      | Choices [] \<Rightarrow> []
      | Choices (ai_response # _) \<Rightarrow>
          [process_reply uw (active_robots s) rn (content ai_response)])"

definition limit_message_stopped :: "int \<Rightarrow> Message" where
  "limit_message_stopped max_turns =
     \<lparr>role = SYSTEM, content = limit_reached_prefix @ str_int max_turns @ limit_reached_stopped,
      name = system_name, target = None\<rparr>"

definition limit_message_ask_user :: "int \<Rightarrow> Message" where
  "limit_message_ask_user max_turns =
     \<lparr>role = SYSTEM, content = limit_reached_prefix @ str_int max_turns @ limit_reached_ask_user,
      name = system_name, target = None\<rparr>"

datatype round_event = Invoked ustring "Message list" | Stopped Message

fun event_messages :: "round_event \<Rightarrow> Message list" where
  "event_messages (Invoked rn msgs) = msgs"
| "event_messages (Stopped m) = [m]"


text \<open>
  Lines 780 to 885: the robots are called one after the other. Each pass is recorded as
  an event with the messages it puts on the queue; the \<open>break\<close> ends the loop.
\<close>

fun respond_loop ::
  "(nat \<Rightarrow> bool) \<Rightarrow> boundary \<Rightarrow> gui_state \<Rightarrow> int \<Rightarrow> robots \<Rightarrow> round_event list" where
  "respond_loop uw api s max_turns [] = []"
| "respond_loop uw api s max_turns ((rn, rc) # rest) =
     (if \<not> infinite_loop s \<and> ai_conversation_turns s > max_turns
      then [Stopped (limit_message_stopped max_turns)]
      else Invoked rn (respond_one uw api s rn rc) # respond_loop uw api s max_turns rest)"

text \<open>
  \<open>trigger_ai_responses\<close> runs in a thread of its own; it reads the history and writes only
  the queue, the turn counter and \<open>ai_processing\<close>. The model runs it to its end in one step
  and returns the events of the round with the new state.
\<close>

definition trigger_ai_responses ::
  "(nat \<Rightarrow> bool) \<Rightarrow> boundary \<Rightarrow> gui_state \<Rightarrow> Message \<Rightarrow> bool \<Rightarrow> round_event list \<times> gui_state" where
  "trigger_ai_responses uw api s last_message is_ai_message =
     (let max_turns = max_ai_conversation_turns (main_config s);
          s1 = s\<lparr>ai_processing := True\<rparr>;
          s2 = (if is_ai_message
                then s1\<lparr>ai_conversation_turns := ai_conversation_turns s1 + 1\<rparr> else s1);
          events = respond_loop uw api s2 max_turns
                     (responding_robots s2 last_message is_ai_message)
      in (events,
          s2\<lparr>message_queue := message_queue s2 @ concat (map event_messages events),
             ai_processing := False\<rparr>))"

section \<open>The queue consumer and the turn limit\<close>

datatype outcome = NotTriggered | LimitNotice | RoundRun "round_event list"

definition trigger_ai_response_to_ai_message ::
  "(nat \<Rightarrow> bool) \<Rightarrow> boundary \<Rightarrow> gui_state \<Rightarrow> Message \<Rightarrow> outcome \<times> gui_state" where
  "trigger_ai_response_to_ai_message uw api s ai_message =
     (if active_robots s = [] \<or> \<not> ai_client s then (NotTriggered, s)
      else
        let max_turns = max_ai_conversation_turns (main_config s) in
        if \<not> infinite_loop s \<and> ai_conversation_turns s \<ge> max_turns
        then (LimitNotice,
              s\<lparr>message_queue := message_queue s @ [limit_message_ask_user max_turns]\<rparr>)
        else
          (case trigger_ai_responses uw api s ai_message True of
             (events, s') \<Rightarrow> (RoundRun events, s')))"

definition add_message_to_history :: "gui_state \<Rightarrow> Message \<Rightarrow> gui_state" where
  "add_message_to_history s msg = s\<lparr>chat_history := chat_history s @ [msg]\<rparr>"

text \<open>
  The body of the loop of \<open>process_messages\<close> for the message \<open>msg\<close> taken from the queue.
  The two calls scheduled with \<open>root.after(0, ...)\<close> run in that order.
\<close>

definition process_message ::
  "(nat \<Rightarrow> bool) \<Rightarrow> boundary \<Rightarrow> gui_state \<Rightarrow> Message \<Rightarrow> outcome \<times> gui_state" where
  "process_message uw api s msg =
     (let max_turns = max_ai_conversation_turns (main_config s) in
      if role msg = ASSISTANT \<and> allow_ai_conversations (main_config s) \<and>
         (infinite_loop s \<or> ai_conversation_turns s < max_turns)
      then
        (if \<not> ai_processing s
         then trigger_ai_response_to_ai_message uw api (add_message_to_history s msg) msg
         else (NotTriggered, add_message_to_history s msg))
      else (NotTriggered, add_message_to_history s msg))"

fun process_messages ::
  "(nat \<Rightarrow> bool) \<Rightarrow> boundary \<Rightarrow> gui_state \<Rightarrow> Message list \<Rightarrow> outcome list \<times> gui_state" where
  "process_messages uw api s [] = ([], s)"
| "process_messages uw api s (msg # msgs) =
     (case process_message uw api s msg of
        (out, s') \<Rightarrow>
          (case process_messages uw api s' msgs of (outs, s'') \<Rightarrow> (out # outs, s'')))"

datatype sent = NothingSent | Queued Message | QueuedAndDispatched Message

definition send_message ::
  "(nat \<Rightarrow> bool) \<Rightarrow> gui_state \<Rightarrow> ustring \<Rightarrow> ustring \<Rightarrow> sent \<times> gui_state" where
  \<comment> \<open>\<open>entry\<close> is the text of the message box and \<open>name_entry\<close> that of the user name box.
      \<open>QueuedAndDispatched m\<close>: the thread running \<open>trigger_ai_responses(m)\<close> is started.\<close>
  "send_message uw s entry name_entry =
     (let user_input = strip entry in
      if user_input = [] then (NothingSent, s)
      else
        let un = (if strip name_entry = [] then default_user_name else strip name_entry);
            s1 = s\<lparr>ai_conversation_turns := 0\<rparr>
        in (case parse_mention uw (active_robots s1) user_input of
              (c, tgt) \<Rightarrow>
                let user_message = \<lparr>role = USER, content = c, name = un, target = tgt\<rparr>;
                    s2 = s1\<lparr>message_queue := message_queue s1 @ [user_message]\<rparr>
                in if active_robots s2 \<noteq> [] \<and> ai_client s2
                   then (QueuedAndDispatched user_message, s2)
                   else (Queued user_message, s2)))"

text \<open>\<open>clear_chat\<close> keeps the persona reminders and sets the turn counter to zero.\<close>

definition clear_chat :: "gui_state \<Rightarrow> gui_state" where
  "clear_chat s =
     s\<lparr>ai_conversation_turns := 0,
       chat_history :=
         filter (\<lambda>msg. role msg = SYSTEM \<and> startswith (content msg) persona_marker)
           (chat_history s)\<rparr>"

section \<open>Saving the configuration\<close>

text \<open>
  The entries of the configuration window. \<open>int(...)\<close> of an entry is Python's own parser:
  the parameter \<open>py_int\<close>, \<open>None\<close> where it raises \<open>ValueError\<close>.
\<close>

record config_form =
  api_key_var :: ustring
  base_url_var :: ustring
  model_var :: ustring
  timeout_var :: ustring
  proxy_var :: ustring
  allow_ai_conv_var :: bool
  max_turns_var :: ustring
  robot_vars :: "(ustring \<times> bool) list"

datatype save_result = Saved | InvalidTimeout | InvalidMaxTurns

definition init_ai_client :: "(config \<Rightarrow> bool) \<Rightarrow> gui_state \<Rightarrow> gui_state" where
  \<comment> \<open>\<open>client_ok\<close>: the constructor \<open>AIClient(...)\<close> accepts the configuration; when it
      raises, the former client stays\<close>
  "init_ai_client client_ok s = (if client_ok (main_config s) then s\<lparr>ai_client := True\<rparr> else s)"

definition set_config :: "(config \<Rightarrow> config) \<Rightarrow> gui_state \<Rightarrow> gui_state" where
  \<comment> \<open>\<open>config_manager.set(key, value)\<close>: the entry is written at once\<close>
  "set_config f s = s\<lparr>main_config := f (main_config s)\<rparr>"

definition save_all_config ::
  "(ustring \<Rightarrow> int option) \<Rightarrow> (config \<Rightarrow> bool) \<Rightarrow> robots \<Rightarrow> config_form \<Rightarrow> gui_state
     \<Rightarrow> save_result \<times> gui_state" where
  "save_all_config py_int client_ok all_robots form s =
     (let s1 = set_config (\<lambda>c. c\<lparr>api_key := api_key_var form\<rparr>) s;
          s2 = set_config (\<lambda>c. c\<lparr>base_url := base_url_var form\<rparr>) s1;
          s3 = set_config (\<lambda>c. c\<lparr>model := model_var form\<rparr>) s2
      in case py_int (timeout_var form) of
           None \<Rightarrow> (InvalidTimeout, s3)
         | Some t \<Rightarrow>
             if t \<le> 0 then (InvalidTimeout, s3)
             else
               let s4 = set_config (\<lambda>c. c\<lparr>timeout := t\<rparr>) s3;
                   s5 = set_config (\<lambda>c. c\<lparr>proxy := proxy_var form\<rparr>) s4;
                   s6 = set_config
                          (\<lambda>c. c\<lparr>allow_ai_conversations := allow_ai_conv_var form\<rparr>) s5
               in (case py_int (max_turns_var form) of
                    None \<Rightarrow> (InvalidMaxTurns, s6)
                  | Some max_turns \<Rightarrow>
                      if max_turns < 1 then (InvalidMaxTurns, s6)
                      else
                        let s7 = set_config
                                   (\<lambda>c. c\<lparr>max_ai_conversation_turns := max_turns\<rparr>) s6;
                            new_defaults = map fst (filter snd (robot_vars form));
                            s8 = set_config (\<lambda>c. c\<lparr>default_robots := new_defaults\<rparr>) s7;
                            s9 = load_all_robots_on_start all_robots (s8\<lparr>active_robots := []\<rparr>)
                        in (Saved, init_ai_client client_ok s9)))"

section \<open>The states of a run\<close>

text \<open>
  The states that the application reaches from its start. Each rule is one of the
  operations that write the history or the queue: loading the robots, a message of the
  user, a dispatch round (for any triggering message, and for any behaviour \<open>api\<close> of
  the completion boundary, which may differ from round to round), a step of the queue
  consumer on the message at the head of the queue, and clearing the chat. Every other
  operation (the switches, the robot editor, saving the configuration or the user name,
  creating the client) leaves the history and the queue as they are and is the rule
  \<open>other\<close>.
\<close>

inductive reachable :: "(nat \<Rightarrow> bool) \<Rightarrow> gui_state \<Rightarrow> bool" for uw :: "nat \<Rightarrow> bool" where
  start: "reachable uw (initial_state cfg)"
| load: "reachable uw s \<Longrightarrow> reachable uw (load_all_robots_on_start all_robots s)"
| send: "reachable uw s \<Longrightarrow> reachable uw (snd (send_message uw s entry name_entry))"
| round:
    "reachable uw s \<Longrightarrow>
     reachable uw (snd (trigger_ai_responses uw api s last_message is_ai_message))"
| consume:
    "reachable uw s \<Longrightarrow> message_queue s = msg # q \<Longrightarrow>
     reachable uw (snd (process_message uw api (s\<lparr>message_queue := q\<rparr>) msg))"
| clear: "reachable uw s \<Longrightarrow> reachable uw (clear_chat s)"
| other:
    "reachable uw s \<Longrightarrow> chat_history s' = chat_history s \<Longrightarrow>
     message_queue s' = message_queue s \<Longrightarrow> reachable uw s'"

definition system_untargeted :: "Message list \<Rightarrow> bool" where
  \<comment> \<open>no system message of the list has a target\<close>
  "system_untargeted h \<longleftrightarrow> list_all (\<lambda>m. role m = SYSTEM \<longrightarrow> target m = None) h"

section \<open>Specifications of the loops and the claims as stated\<close>

definition visible :: "ustring \<Rightarrow> Message \<Rightarrow> bool" where
  \<comment> \<open>the messages of the history that the loop of the view keeps for the robot \<open>rn\<close>\<close>
  "visible rn msg \<longleftrightarrow>
     (if role msg = SYSTEM then \<not> startswith (content msg) persona_marker
      else target msg = None \<or> target msg = Some rn \<or> name msg = rn)"

definition eligible :: "Message \<Rightarrow> bool \<Rightarrow> ustring \<times> RobotConfig \<Rightarrow> bool" where
  \<comment> \<open>the robots that the loop of lines 768 to 778 keeps\<close>
  "eligible last_message is_ai_message r \<longleftrightarrow>
     fst r \<noteq> name last_message \<and>
     (if truthy (target last_message) then target last_message = Some (fst r)
      else auto_respond_to_all (snd r)) \<and>
     (if is_ai_message then auto_respond_to_ai (snd r) else True)"

definition stated_eligible :: "Message \<Rightarrow> bool \<Rightarrow> ustring \<times> RobotConfig \<Rightarrow> bool" where
  \<comment> \<open>the eligible responder as the specification words it: the target if one is set,
      otherwise the public policy or, for an autonomous round on an agent's message, the
      agent policy\<close>
  "stated_eligible last_message is_ai_message r \<longleftrightarrow>
     fst r \<noteq> name last_message \<and>
     (if target last_message \<noteq> None then target last_message = Some (fst r)
      else auto_respond_to_all (snd r) \<or>
           (is_ai_message \<and> role last_message = ASSISTANT \<and> auto_respond_to_ai (snd r)))"

definition stated_responders :: "gui_state \<Rightarrow> Message \<Rightarrow> bool \<Rightarrow> robots" where
  "stated_responders s last_message is_ai_message =
     filter (stated_eligible last_message is_ai_message) (active_robots s)"

definition stated_process_reply ::
  "(nat \<Rightarrow> bool) \<Rightarrow> robots \<Rightarrow> ustring \<Rightarrow> ustring \<Rightarrow> Message" where
  \<comment> \<open>the post-processing in the order the specification gives: the name prefix is
      removed first and the mention parser runs on the result\<close>
  "stated_process_reply uw robots rn reply =
     (case parse_mention uw robots
             (if startswith reply (rn @ [58]) then lstrip (drop (length (rn @ [58])) reply)
              else reply) of
        (c, tgt) \<Rightarrow> \<lparr>role = ASSISTANT, content = c, name = rn, target = tgt\<rparr>)"

definition is_round :: "outcome \<Rightarrow> bool" where
  "is_round out \<longleftrightarrow> (case out of RoundRun events \<Rightarrow> True | _ \<Rightarrow> False)"

fun is_stopped :: "round_event \<Rightarrow> bool" where
  "is_stopped (Stopped m) = True"
| "is_stopped (Invoked rn msgs) = False"

definition announces_limit :: "outcome \<Rightarrow> bool" where
  \<comment> \<open>the step put a message about the turn limit on the queue\<close>
  "announces_limit out \<longleftrightarrow>
     (case out of
        NotTriggered \<Rightarrow> False
      | LimitNotice \<Rightarrow> True
      | RoundRun events \<Rightarrow> list_ex is_stopped events)"

definition ready :: "gui_state \<Rightarrow> bool" where
  \<comment> \<open>autonomous conversation is allowed and possible, and bounded by the turn limit\<close>
  "ready s \<longleftrightarrow>
     allow_ai_conversations (main_config s) \<and> \<not> infinite_loop s \<and> \<not> ai_processing s \<and>
     active_robots s \<noteq> [] \<and> ai_client s"

definition is_limit_notice :: "Message \<Rightarrow> bool" where
  \<comment> \<open>one of the two messages that announce the turn limit\<close>
  "is_limit_notice m \<longleftrightarrow> role m = SYSTEM \<and> startswith (content m) limit_reached_prefix"

section \<open>Example data\<close>

definition no_unicode_word :: "nat \<Rightarrow> bool" where
  \<comment> \<open>a table for \<open>\w\<close> beyond ASCII that holds no character; the examples are ASCII\<close>
  "no_unicode_word c = False"

definition decimal_int :: "ustring \<Rightarrow> int option" where
  \<comment> \<open>\<open>int(...)\<close> on plain decimal literals with an optional minus sign, for the examples\<close>
  "decimal_int s =
     (let digits = (\<lambda>ds. ds \<noteq> [] \<and> list_all (\<lambda>c. 48 \<le> c \<and> c \<le> 57) ds);
          val = (\<lambda>ds. int (fold (\<lambda>c n. 10 * n + (c - 48)) ds 0))
      in case s of
           [] \<Rightarrow> None
         | c # cs \<Rightarrow>
             if c = 45 then (if digits cs then Some (- val cs) else None)
             else if digits s then Some (val s) else None)"

definition robot_Ann :: RobotConfig where
  "robot_Ann =
     \<lparr>robot_name = asc ''Ann'', prompt = asc ''Be kind.'', prompt_file = None, enabled = True,
      auto_respond_to_ai = True, auto_respond_to_all = True, color = None\<rparr>"

definition robot_Bob :: RobotConfig where
  "robot_Bob =
     \<lparr>robot_name = asc ''Bob'', prompt = [], prompt_file = None, enabled = True,
      auto_respond_to_ai = True, auto_respond_to_all = False, color = None\<rparr>"

definition example_robots :: robots where
  "example_robots = [(asc ''Ann'', robot_Ann), (asc ''Bob'', robot_Bob)]"

definition example_state :: gui_state where
  \<comment> \<open>the application after start with the two robots and a client\<close>
  "example_state =
     (load_all_robots_on_start example_robots (initial_state default_main_config))
       \<lparr>ai_client := True\<rparr>"

definition with_max_turns :: "int \<Rightarrow> gui_state" where
  "with_max_turns n =
     example_state\<lparr>main_config := (main_config example_state)\<lparr>max_ai_conversation_turns := n\<rparr>\<rparr>"

definition says :: "Role \<Rightarrow> string \<Rightarrow> string \<Rightarrow> string option \<Rightarrow> Message" where
  "says r sender txt tgt =
     \<lparr>role = r, content = asc txt, name = asc sender, target = map_option asc tgt\<rparr>"

definition silent_api :: boundary where
  \<comment> \<open>a completion boundary that answers with no choice\<close>
  "silent_api rn msgs = Choices []"

definition flaky_api :: boundary where
  \<comment> \<open>a completion boundary that fails for Ann and answers for everyone else\<close>
  "flaky_api rn msgs =
     (if rn = asc ''Ann'' then Raised (asc ''timed out'')
      else Choices [says ASSISTANT ''assistant'' ''@Ann noted'' None])"

definition addressing_api :: boundary where
  \<comment> \<open>a completion boundary where Ann addresses Bob and nobody else answers\<close>
  "addressing_api rn msgs =
     (if rn = asc ''Ann'' then Choices [says ASSISTANT ''assistant'' ''@Bob your view'' None]
      else Choices [])"

definition after_human_round :: gui_state where
  \<comment> \<open>the round on a public message of the user Eve: Ann answers\<close>
  "after_human_round =
     snd (trigger_ai_responses no_unicode_word addressing_api example_state
            (says USER ''Eve'' ''hello'' None) False)"

definition example_conversation :: gui_state where
  \<comment> \<open>the consumer has taken the answer of Ann from the queue\<close>
  "example_conversation =
     snd (process_message no_unicode_word addressing_api
            (after_human_round\<lparr>message_queue := []\<rparr>)
            (says ASSISTANT ''Ann'' ''your view'' (Some ''Bob'')))"

definition example_form :: config_form where
  "example_form =
     \<lparr>api_key_var = asc ''sk-new'', base_url_var = asc ''https://example.org/v1'',
      model_var = asc ''gpt-4'', timeout_var = asc ''60'', proxy_var = [],
      allow_ai_conv_var = False, max_turns_var = asc ''0'', robot_vars = []\<rparr>"

definition accept_all :: "config \<Rightarrow> bool" where
  "accept_all c = True"

section \<open>The view of one robot: properties\<close>

text \<open>
  The loop over the history is a filter: it appends to the list in the order of the
  history and changes no message.
\<close>

lemma history_loop_filter: "history_loop rn h acc = acc @ filter (visible rn) h"
  by (induction h arbitrary: acc) (simp_all add: visible_def)

lemma robot_view_filter:
  "robot_view s rn rc = lead_message s rn rc # filter (visible rn) (chat_history s)"
  by (simp add: robot_view_def history_loop_filter)

lemma lead_message_fields:
  "role (lead_message s rn rc) = SYSTEM" "target (lead_message s rn rc) = None"
  "name (lead_message s rn rc) = system_name"
  by (simp_all add: lead_message_def)

lemma startswith_append [simp]: "startswith (p @ s) p"
  by (simp add: startswith_def)

lemma persona_reminder_hidden: "\<not> visible rn (persona_reminder rn' p)"
  by (simp add: visible_def persona_reminder_def)

lemma lead_not_persona: "lead_message s rn rc \<noteq> persona_reminder rn' p"
proof
  assume "lead_message s rn rc = persona_reminder rn' p"
  then have "content (lead_message s rn rc) = content (persona_reminder rn' p)" by simp
  then have "hd (content (lead_message s rn rc)) = hd (content (persona_reminder rn' p))" by simp
  then show False
    by (simp add: lead_message_def persona_reminder_def system_prompt_def your_name_is_def
        persona_marker_def split: if_splits)
qed

lemma example_history:
  "chat_history example_state =
     [persona_reminder (asc ''Ann'') (asc ''Be kind.''),
      roster_message (roster_header @ roster_human @ default_user_name @ [10]
                      @ roster_robot @ asc ''Ann'' @ [10] @ roster_robot @ asc ''Bob'' @ [10])
        (asc ''Ann''),
      roster_message (roster_header @ roster_human @ default_user_name @ [10]
                      @ roster_robot @ asc ''Ann'' @ [10] @ roster_robot @ asc ''Bob'' @ [10])
        (asc ''Bob'')]"
  by (simp add: example_state_def load_all_robots_on_start_def example_robots_def
      initial_state_def default_main_config_def robot_Ann_def robot_Bob_def asc_def)

lemma example_active: "active_robots example_state = example_robots"
  by (simp add: example_state_def load_all_robots_on_start_def example_robots_def
      initial_state_def default_main_config_def robot_Ann_def robot_Bob_def asc_def)

lemma example_state_fields:
  "active_robots example_state = example_robots"
  "main_config example_state = default_main_config"
  "message_queue example_state = []"
  "ai_client example_state"
  "ai_conversation_turns example_state = 0"
  "\<not> infinite_loop example_state"
  "\<not> ai_processing example_state"
  by (simp_all add: example_state_def load_all_robots_on_start_def example_robots_def
      initial_state_def robot_Ann_def robot_Bob_def asc_def split: prod.splits)

lemma with_max_turns_fields:
  "active_robots (with_max_turns n) = example_robots"
  "max_ai_conversation_turns (main_config (with_max_turns n)) = n"
  "allow_ai_conversations (main_config (with_max_turns n))"
  "message_queue (with_max_turns n) = []"
  "ai_client (with_max_turns n)"
  "ai_conversation_turns (with_max_turns n) = 0"
  "\<not> infinite_loop (with_max_turns n)"
  "\<not> ai_processing (with_max_turns n)"
  by (simp_all add: with_max_turns_def example_state_fields default_main_config_def)

text \<open>
  Claim C10. The message list built for a robot is the one synthesized system message
  followed by messages of the history, in the order of the history and unchanged: the rest
  of the list is a subsequence of the history.
\<close>

theorem robot_view_shape:
  "robot_view s rn rc \<noteq> [] \<and>
   hd (robot_view s rn rc) = lead_message s rn rc \<and>
   role (hd (robot_view s rn rc)) = SYSTEM \<and>
   subseq (tl (robot_view s rn rc)) (chat_history s)"
  by (simp add: robot_view_filter lead_message_fields)

text \<open>
  Claim C2, as amended. The system messages of the history that reach the view are those
  whose text does not start with the persona marker, whichever robot the view is for; a
  persona reminder, as \<open>load_all_robots_on_start\<close> writes it, is in no view, the one of its
  own robot included. The persona of the robot is in the synthesized first message instead.
\<close>

theorem robot_view_system_messages:
  "filter (\<lambda>m. role m = SYSTEM) (tl (robot_view s rn rc)) =
     filter (\<lambda>m. role m = SYSTEM \<and> \<not> startswith (content m) persona_marker) (chat_history s)
   \<and> persona_reminder rn' p \<notin> set (robot_view s rn rc)"
proof -
  have "(\<lambda>m. visible rn m \<and> role m = SYSTEM) =
        (\<lambda>m. role m = SYSTEM \<and> \<not> startswith (content m) persona_marker)"
    by (auto simp: visible_def)
  then show ?thesis
    using lead_not_persona [of s rn rc rn' p]
    by (auto simp: robot_view_filter persona_reminder_hidden conj_commute)
qed

text \<open>
  Claim C2 as stated fails on the persona reminder of the robot itself: after start, the
  reminder of Ann is in the history and not in the view of Ann.
\<close>

theorem own_persona_reminder_hidden:
  "persona_reminder (asc ''Ann'') (prompt robot_Ann) \<in> set (chat_history example_state)
   \<and> persona_reminder (asc ''Ann'') (prompt robot_Ann)
       \<notin> set (robot_view example_state (asc ''Ann'') robot_Ann)"
proof
  show "persona_reminder (asc ''Ann'') (prompt robot_Ann) \<in> set (chat_history example_state)"
    by (simp add: example_history robot_Ann_def)
next
  have "persona_reminder (asc ''Ann'') (prompt robot_Ann)
          \<notin> set (filter (visible (asc ''Ann'')) (chat_history example_state))"
    by (simp add: persona_reminder_hidden)
  moreover have "lead_message example_state (asc ''Ann'') robot_Ann
                   \<noteq> persona_reminder (asc ''Ann'') (prompt robot_Ann)"
    by (rule lead_not_persona)
  ultimately show "persona_reminder (asc ''Ann'') (prompt robot_Ann)
       \<notin> set (robot_view example_state (asc ''Ann'') robot_Ann)"
    by (simp add: robot_view_filter del: set_filter)
qed

text \<open>
  Claim C9. The view is a function of the history, the active robots and the user name
  (the registry snapshot) only: two states of the application that agree on these give
  the same view, whatever the turn counter, the flags, the queue and the rest of the
  configuration are. Building the view writes no field of the state (the definition
  returns the list alone), so a second computation on the same state gives the same list.
\<close>

theorem robot_view_pure:
  "chat_history s1 = chat_history s2 \<Longrightarrow> active_robots s1 = active_robots s2 \<Longrightarrow>
   user_name (main_config s1) = user_name (main_config s2) \<Longrightarrow>
   robot_view s1 rn rc = robot_view s2 rn rc"
  by (simp add: robot_view_def lead_message_def system_prompt_def)

text \<open>
  Two states that differ in the turn counter and the loop flag.
\<close>

theorem robot_view_pure_witness:
  "chat_history example_state =
     chat_history (example_state\<lparr>ai_conversation_turns := 3, infinite_loop := True\<rparr>)
   \<and> active_robots example_state =
     active_robots (example_state\<lparr>ai_conversation_turns := 3, infinite_loop := True\<rparr>)
   \<and> user_name (main_config example_state) =
     user_name (main_config (example_state\<lparr>ai_conversation_turns := 3, infinite_loop := True\<rparr>))
   \<and> robot_view example_state (asc ''Ann'') robot_Ann =
     robot_view (example_state\<lparr>ai_conversation_turns := 3, infinite_loop := True\<rparr>)
       (asc ''Ann'') robot_Ann"
  using robot_view_pure [of example_state
      "example_state\<lparr>ai_conversation_turns := 3, infinite_loop := True\<rparr>" "asc ''Ann''" robot_Ann]
  by simp

section \<open>The mention parser: properties\<close>

lemma word_then_space_token:
  "nm \<noteq> [] \<Longrightarrow> \<forall>c\<in>set nm. is_word uw c \<Longrightarrow> is_space sp \<Longrightarrow> \<not> is_word uw sp \<Longrightarrow>
   word_then_space uw (nm @ sp # rest) = Some (nm, rest)"
proof (induction nm)
  case Nil
  then show ?case by simp
next
  case (Cons c cs)
  show ?case
  proof (cases cs)
    case Nil
    with Cons.prems show ?thesis by simp
  next
    case (Cons d ds)
    with Cons.IH Cons.prems have "word_then_space uw (cs @ sp # rest) = Some (cs, rest)"
      by simp
    with Cons.prems show ?thesis by simp
  qed
qed

lemma word_then_space_sound:
  "word_then_space uw s = Some (w, r) \<Longrightarrow>
   w \<noteq> [] \<and> (\<forall>c\<in>set w. is_word uw c) \<and> (\<exists>sp. is_space sp \<and> s = w @ sp # r)"
proof (induction s arbitrary: w r)
  case Nil
  then show ?case by simp
next
  case (Cons c cs)
  from Cons.prems have cw: "is_word uw c"
    by (simp split: if_splits)
  show ?case
  proof (cases "word_then_space uw cs")
    case None
    with Cons.prems cw obtain d ds where "cs = d # ds" "is_space d" "w = [c]" "r = ds"
      by (cases cs) (simp_all split: if_splits)
    with cw show ?thesis by simp
  next
    case (Some p)
    obtain w' r' where p: "p = (w', r')" by (cases p)
    with Some have eq: "word_then_space uw cs = Some (w', r')" by simp
    from Cons.IH [OF eq] obtain sp where
      ih: "w' \<noteq> []" "\<forall>c\<in>set w'. is_word uw c" "is_space sp" "cs = w' @ sp # r'"
      by blast
    from Cons.prems cw eq have "w = c # w'" "r = r'"
      by simp_all
    with ih cw show ?thesis by simp
  qed
qed

lemma mention_match_sound:
  "mention_match uw s = Some (w, r) \<Longrightarrow>
   w \<noteq> [] \<and> (\<forall>c\<in>set w. is_word uw c) \<and> (\<exists>sp. is_space sp \<and> s = 64 # w @ sp # r)"
proof (cases s)
  case Nil
  assume "mention_match uw s = Some (w, r)"
  with Nil show ?thesis by (simp add: mention_match_def)
next
  case (Cons c cs)
  assume m: "mention_match uw s = Some (w, r)"
  with Cons have "c = 64" "word_then_space uw cs = Some (w, r)"
    by (simp_all add: mention_match_def split: if_splits)
  with word_then_space_sound [of uw cs w r] Cons show ?thesis by simp
qed

lemma mention_match_token:
  "nm \<noteq> [] \<Longrightarrow> \<forall>c\<in>set nm. is_word uw c \<Longrightarrow> is_space sp \<Longrightarrow> \<not> is_word uw sp \<Longrightarrow>
   mention_match uw (64 # nm @ sp # rest) = Some (nm, rest)"
  by (simp add: mention_match_def word_then_space_token)

lemmas eval_parse = parse_mention_def mention_match_def asc_def is_word_def ascii_word_def
  is_space_def has_key_def

text \<open>
  Claim C3, as amended. A text that starts with \<open>@\<close>, a non-empty run \<open>nm\<close> of word
  characters and a whitespace character \<open>sp\<close> (which is no word character, as in Python)
  is parsed to the target \<open>nm\<close> and the text after \<open>sp\<close>, unchanged, when \<open>nm\<close> is an active
  robot, and to no target and the whole text, unchanged, when it is not. A text with no
  such token is returned whole with no target. Nothing is trimmed. The three examples of
  the specification hold.
\<close>

theorem parse_mention_contract:
  "(nm \<noteq> [] \<and> (\<forall>c\<in>set nm. is_word uw c) \<and> is_space sp \<and> \<not> is_word uw sp \<longrightarrow>
      parse_mention uw robots (64 # nm @ sp # rest) =
        (if has_key nm robots then (rest, Some nm) else (64 # nm @ sp # rest, None)))
   \<and> ((\<nexists>w sp' r. raw = 64 # w @ sp' # r \<and> w \<noteq> [] \<and> (\<forall>c\<in>set w. is_word uw c) \<and> is_space sp')
        \<longrightarrow> parse_mention uw robots raw = (raw, None))
   \<and> parse_mention uw [(asc ''Bob'', b), (asc ''Ann'', a)] (asc ''@Bob hello'') =
        (asc ''hello'', Some (asc ''Bob''))
   \<and> parse_mention uw [(asc ''Bob'', b)] (asc ''@Unknown hi'') = (asc ''@Unknown hi'', None)
   \<and> parse_mention uw [(asc ''Bob'', b)] (asc ''no mention here'') =
        (asc ''no mention here'', None)"
proof (intro conjI impI)
  assume "nm \<noteq> [] \<and> (\<forall>c\<in>set nm. is_word uw c) \<and> is_space sp \<and> \<not> is_word uw sp"
  then show "parse_mention uw robots (64 # nm @ sp # rest) =
        (if has_key nm robots then (rest, Some nm) else (64 # nm @ sp # rest, None))"
    by (simp add: parse_mention_def mention_match_token)
next
  assume absent: "\<nexists>w sp' r. raw = 64 # w @ sp' # r \<and> w \<noteq> [] \<and> (\<forall>c\<in>set w. is_word uw c) \<and> is_space sp'"
  have "mention_match uw raw = None"
  proof (cases "mention_match uw raw")
    case None
    then show ?thesis .
  next
    case (Some p)
    obtain w r where "p = (w, r)" by (cases p)
    with Some mention_match_sound [of uw raw w r] absent show ?thesis by blast
  qed
  then show "parse_mention uw robots raw = (raw, None)"
    by (simp add: parse_mention_def)
next
  show "parse_mention uw [(asc ''Bob'', b), (asc ''Ann'', a)] (asc ''@Bob hello'') =
        (asc ''hello'', Some (asc ''Bob''))"
    by (simp add: eval_parse)
next
  show "parse_mention uw [(asc ''Bob'', b)] (asc ''@Unknown hi'') = (asc ''@Unknown hi'', None)"
    by (simp add: eval_parse)
next
  show "parse_mention uw [(asc ''Bob'', b)] (asc ''no mention here'') =
        (asc ''no mention here'', None)"
    by (simp add: eval_parse)
qed

text \<open>
  The token \<open>@Bob\<close> before \<open>hello\<close>, and a text with no token.
\<close>

theorem parse_mention_contract_witness:
  "asc ''Bob'' \<noteq> [] \<and> list_all (is_word no_unicode_word) (asc ''Bob'') \<and> is_space 32 \<and>
   \<not> is_word no_unicode_word 32 \<and> has_key (asc ''Bob'') example_robots \<and>
   parse_mention no_unicode_word example_robots (64 # asc ''Bob'' @ 32 # asc ''hello'') =
     (asc ''hello'', Some (asc ''Bob'')) \<and>
   (\<nexists>w sp' r. asc ''hi'' = 64 # w @ sp' # r \<and> w \<noteq> [] \<and>
       list_all (is_word no_unicode_word) w \<and> is_space sp') \<and>
   parse_mention no_unicode_word example_robots (asc ''hi'') = (asc ''hi'', None)"
  using parse_mention_contract [of "asc ''Bob''" no_unicode_word 32 example_robots "asc ''hello''"
      "asc ''hi''" robot_Bob robot_Ann]
  by (simp add: asc_def is_word_def ascii_word_def is_space_def has_key_def example_robots_def)

text \<open>
  Claim C3 as stated fails where it says that the text is trimmed: after \<open>@Bob\<close> and two
  spaces the second space stays, and a text without a mention keeps its spaces.
\<close>

theorem parse_mention_not_trimmed:
  "parse_mention no_unicode_word example_robots (asc ''@Bob  hello'') =
     (asc '' hello'', Some (asc ''Bob''))
   \<and> strip (asc '' hello'') = asc ''hello''
   \<and> asc '' hello'' \<noteq> asc ''hello''
   \<and> parse_mention no_unicode_word example_robots (asc '' hi '') = (asc '' hi '', None)
   \<and> strip (asc '' hi '') \<noteq> asc '' hi ''"
  by (simp add: eval_parse example_robots_def strip_def lstrip_def rstrip_def)

section \<open>Post-processing of a reply: properties\<close>

lemma lstrip_space_at: "lstrip (32 # 64 # s) = 64 # s"
  by (simp add: lstrip_def is_space_def)

lemma mention_match_no_at: "s = [] \<or> hd s \<noteq> 64 \<Longrightarrow> mention_match uw s = None"
  by (cases s) (simp_all add: mention_match_def)

text \<open>
  Claim C6, as amended. The mention parser runs on the raw reply first and the name prefix
  of the robot is removed from the parsed text afterwards. So a reply that starts with the
  own name, a colon and then a mention keeps the mention in its text and has no target,
  and a reply that starts with the mention, followed by the own name and a colon, has the
  target and loses the prefix.
\<close>

theorem process_reply_order:
  "((rn = [] \<or> hd rn \<noteq> 64) \<longrightarrow>
      process_reply uw robots rn (rn @ 58 # 32 # 64 # other @ 32 # body) =
        \<lparr>role = ASSISTANT, content = 64 # other @ 32 # body, name = rn, target = None\<rparr>)
   \<and> (other \<noteq> [] \<and> (\<forall>c\<in>set other. is_word uw c) \<and> has_key other robots \<longrightarrow>
      process_reply uw robots rn (64 # other @ 32 # rn @ 58 # 32 # body) =
        \<lparr>role = ASSISTANT, content = lstrip body, name = rn, target = Some other\<rparr>)"
proof (intro conjI impI)
  assume h: "rn = [] \<or> hd rn \<noteq> 64"
  let ?reply = "rn @ 58 # 32 # 64 # other @ 32 # body"
  from h have "?reply = [] \<or> hd ?reply \<noteq> 64" by (cases rn) simp_all
  then have "mention_match uw ?reply = None" by (rule mention_match_no_at)
  then have p: "parse_mention uw robots ?reply = (?reply, None)"
    by (simp add: parse_mention_def)
  have sw: "startswith ?reply (rn @ [58])"
    using startswith_append [of "rn @ [58]" "32 # 64 # other @ 32 # body"] by simp
  have "drop (length (rn @ [58])) ?reply = 32 # 64 # other @ 32 # body" by simp
  with p sw show "process_reply uw robots rn ?reply =
        \<lparr>role = ASSISTANT, content = 64 # other @ 32 # body, name = rn, target = None\<rparr>"
    by (simp add: process_reply_def lstrip_space_at del: append.simps length_append)
next
  assume h: "other \<noteq> [] \<and> (\<forall>c\<in>set other. is_word uw c) \<and> has_key other robots"
  let ?reply = "64 # other @ 32 # rn @ 58 # 32 # body"
  have "is_space 32" "\<not> is_word uw 32"
    by (simp_all add: is_space_def is_word_def ascii_word_def)
  with h have "mention_match uw ?reply = Some (other, rn @ 58 # 32 # body)"
    by (simp add: mention_match_token)
  with h have p: "parse_mention uw robots ?reply = (rn @ 58 # 32 # body, Some other)"
    by (simp add: parse_mention_def)
  have sw: "startswith (rn @ 58 # 32 # body) (rn @ [58])"
    using startswith_append [of "rn @ [58]" "32 # body"] by simp
  have d: "drop (length (rn @ [58])) (rn @ 58 # 32 # body) = 32 # body" by simp
  have "lstrip (32 # body) = lstrip body" by (simp add: lstrip_def is_space_def)
  with p sw d show "process_reply uw robots rn ?reply =
        \<lparr>role = ASSISTANT, content = lstrip body, name = rn, target = Some other\<rparr>"
    by (simp add: process_reply_def del: append.simps length_append)
qed

text \<open>
  Both forms of the reply, for Ann addressing Bob.
\<close>

theorem process_reply_order_witness:
  "(asc ''Ann'' = [] \<or> hd (asc ''Ann'') \<noteq> 64)
   \<and> process_reply no_unicode_word example_robots (asc ''Ann'')
        (asc ''Ann'' @ 58 # 32 # 64 # asc ''Bob'' @ 32 # asc ''text'') =
      \<lparr>role = ASSISTANT, content = 64 # asc ''Bob'' @ 32 # asc ''text'', name = asc ''Ann'',
       target = None\<rparr>
   \<and> asc ''Bob'' \<noteq> [] \<and> list_all (is_word no_unicode_word) (asc ''Bob'')
   \<and> has_key (asc ''Bob'') example_robots
   \<and> process_reply no_unicode_word example_robots (asc ''Ann'')
        (64 # asc ''Bob'' @ 32 # asc ''Ann'' @ 58 # 32 # asc ''text'') =
      \<lparr>role = ASSISTANT, content = lstrip (asc ''text''), name = asc ''Ann'',
       target = Some (asc ''Bob'')\<rparr>"
  using process_reply_order [of "asc ''Ann''" no_unicode_word example_robots "asc ''Bob''"
      "asc ''text''"]
  by (simp add: asc_def is_word_def ascii_word_def has_key_def example_robots_def)

text \<open>
  Claim C6 as stated fails on the reply \<open>Ann: @Bob text\<close> of Ann: the message has no
  target and the text \<open>@Bob text\<close>, where the order of the specification gives the target
  Bob and the text \<open>text\<close>.
\<close>

theorem process_reply_prefixed_mention:
  "process_reply no_unicode_word example_robots (asc ''Ann'') (asc ''Ann: @Bob text'') =
     says ASSISTANT ''Ann'' ''@Bob text'' None
   \<and> stated_process_reply no_unicode_word example_robots (asc ''Ann'') (asc ''Ann: @Bob text'') =
     says ASSISTANT ''Ann'' ''text'' (Some ''Bob'')"
  by (simp add: process_reply_def stated_process_reply_def eval_parse example_robots_def
      says_def startswith_def lstrip_def)

section \<open>The responding robots: properties\<close>

lemma responding_loop_filter:
  "responding_loop m ai rs acc = acc @ filter (eligible m ai) rs"
  by (induction rs arbitrary: acc) (auto simp: eligible_def)

lemma responding_robots_filter:
  "responding_robots s m ai = filter (eligible m ai) (active_robots s)"
  by (simp add: responding_robots_def responding_loop_filter)

lemma filter_eq_distinct: "distinct xs \<Longrightarrow> x \<in> set xs \<Longrightarrow> filter (\<lambda>y. y = x) xs = [x]"
proof (induction xs)
  case Nil
  then show ?case by simp
next
  case (Cons a xs)
  show ?case
  proof (cases "a = x")
    case True
    with Cons.prems have "x \<notin> set xs" by simp
    then have "filter (\<lambda>y. y = x) xs = []" by (auto simp: filter_empty_conv)
    with True show ?thesis by simp
  next
    case False
    with Cons show ?thesis by simp
  qed
qed

lemmas eval_respond = responding_robots_def example_active example_robots_def says_def asc_def
  truthy_def robot_Ann_def robot_Bob_def has_key_def

text \<open>
  Claim C4, as amended. The responding robots are the active robots, in their order,
  other than the sender, that are the target when the message has one and have the public
  policy when it has none, and that have the agent policy when the round is autonomous:
  the policies are conjoined. A public message of a sender that is no robot, in a round
  that is not autonomous, reaches the robots with the public policy; a message for Bob
  from someone else reaches Bob alone.
\<close>

theorem responding_robots_exact:
  "responding_robots s m ai =
     filter (\<lambda>r. fst r \<noteq> name m \<and>
                 (if truthy (target m) then target m = Some (fst r)
                  else auto_respond_to_all (snd r)) \<and>
                 (ai \<longrightarrow> auto_respond_to_ai (snd r)))
       (active_robots s)
   \<and> (target m = None \<and> \<not> has_key (name m) (active_robots s) \<longrightarrow>
        responding_robots s m False =
          filter (\<lambda>r. auto_respond_to_all (snd r)) (active_robots s))
   \<and> (target m = Some bob \<and> bob \<noteq> [] \<and> bob \<noteq> name m \<and> has_key bob (active_robots s) \<and>
       distinct (map fst (active_robots s)) \<longrightarrow>
        map fst (responding_robots s m False) = [bob])"
proof (intro conjI impI)
  have "eligible m ai =
        (\<lambda>r. fst r \<noteq> name m \<and>
              (if truthy (target m) then target m = Some (fst r)
               else auto_respond_to_all (snd r)) \<and>
              (ai \<longrightarrow> auto_respond_to_ai (snd r)))"
    by (auto simp: eligible_def fun_eq_iff)
  then show "responding_robots s m ai =
     filter (\<lambda>r. fst r \<noteq> name m \<and>
                 (if truthy (target m) then target m = Some (fst r)
                  else auto_respond_to_all (snd r)) \<and>
                 (ai \<longrightarrow> auto_respond_to_ai (snd r)))
       (active_robots s)"
    by (simp add: responding_robots_filter)
next
  assume h: "target m = None \<and> \<not> has_key (name m) (active_robots s)"
  then have "\<forall>r\<in>set (active_robots s). eligible m False r = auto_respond_to_all (snd r)"
    by (force simp: eligible_def truthy_def has_key_def)
  then show "responding_robots s m False =
          filter (\<lambda>r. auto_respond_to_all (snd r)) (active_robots s)"
    by (simp add: responding_robots_filter cong: filter_cong)
next
  assume h: "target m = Some bob \<and> bob \<noteq> [] \<and> bob \<noteq> name m \<and> has_key bob (active_robots s) \<and>
       distinct (map fst (active_robots s))"
  then have "eligible m False = (\<lambda>r. fst r = bob)"
    by (auto simp: eligible_def truthy_def fun_eq_iff)
  then have "map fst (responding_robots s m False) =
             filter (\<lambda>y. y = bob) (map fst (active_robots s))"
    by (simp add: responding_robots_filter filter_map comp_def)
  with h show "map fst (responding_robots s m False) = [bob]"
    by (simp add: filter_eq_distinct has_key_def)
qed

text \<open>
  The two scenarios of the specification, Ann with the public policy and Bob without,
  and an autonomous round on a public message of Bob.
\<close>

theorem responding_robots_exact_witness:
  "target (says USER ''Eve'' ''hello'' None) = None
   \<and> \<not> has_key (name (says USER ''Eve'' ''hello'' None)) (active_robots example_state)
   \<and> responding_robots example_state (says USER ''Eve'' ''hello'' None) False =
        [(asc ''Ann'', robot_Ann)]
   \<and> target (says USER ''Eve'' ''status?'' (Some ''Bob'')) = Some (asc ''Bob'')
   \<and> asc ''Bob'' \<noteq> [] \<and> asc ''Bob'' \<noteq> name (says USER ''Eve'' ''status?'' (Some ''Bob''))
   \<and> has_key (asc ''Bob'') (active_robots example_state)
   \<and> distinct (map fst (active_robots example_state))
   \<and> map fst (responding_robots example_state (says USER ''Eve'' ''status?'' (Some ''Bob'')) False)
        = [asc ''Bob'']
   \<and> auto_respond_to_ai robot_Ann
   \<and> responding_robots example_state (says ASSISTANT ''Bob'' ''hello'' None) True =
        [(asc ''Ann'', robot_Ann)]"
  using responding_robots_exact [of example_state "says USER ''Eve'' ''hello'' None" False
      "asc ''Bob''"]
    responding_robots_exact [of example_state "says USER ''Eve'' ''status?'' (Some ''Bob'')" False
      "asc ''Bob''"]
    responding_robots_exact [of example_state "says ASSISTANT ''Bob'' ''hello'' None" True
      "asc ''Bob''"]
  by (simp add: example_active example_robots_def says_def asc_def truthy_def robot_Ann_def
      robot_Bob_def has_key_def)

text \<open>
  Claim C4 as stated fails in an autonomous round on a public message: Bob has the agent
  policy and not the public one, so the code leaves him out, where the specification's
  disjunction takes him in.
\<close>

theorem responding_robots_not_as_stated:
  "responding_robots example_state (says ASSISTANT ''Ann'' ''hello'' None) True = []
   \<and> stated_responders example_state (says ASSISTANT ''Ann'' ''hello'' None) True =
       [(asc ''Bob'', robot_Bob)]"
  by (simp add: eval_respond stated_responders_def stated_eligible_def)

section \<open>Failures at the completion boundary: properties\<close>

lemma respond_loop_all:
  "infinite_loop s \<or> ai_conversation_turns s \<le> max_turns \<Longrightarrow>
   respond_loop uw api s max_turns rs =
     map (\<lambda>r. Invoked (fst r) (respond_one uw api s (fst r) (snd r))) rs"
  by (induction rs) auto


lemma no_stop_in_map: "\<not> list_ex is_stopped (map (\<lambda>r. Invoked (f r) (g r)) rs)"
  by (induction rs) simp_all



section \<open>The turn limit: properties\<close>

lemma trigger_ai_responses_state:
  "snd (trigger_ai_responses uw api s m ai) =
     s\<lparr>ai_conversation_turns := (if ai then ai_conversation_turns s + 1 else ai_conversation_turns s),
       message_queue := message_queue s @ concat (map event_messages (fst (trigger_ai_responses uw api s m ai))),
       ai_processing := False\<rparr>"
  by (simp add: trigger_ai_responses_def Let_def)

lemma autonomous_round_no_stop:
  "ai_conversation_turns s < max_ai_conversation_turns (main_config s) \<Longrightarrow>
   \<not> list_ex is_stopped (fst (trigger_ai_responses uw api s m True))"
  by (simp add: trigger_ai_responses_def Let_def respond_loop_all no_stop_in_map)

lemma process_message_below_limit:
  assumes "ready s" "role m = ASSISTANT"
    "ai_conversation_turns s < max_ai_conversation_turns (main_config s)"
  shows "\<exists>ev s'. process_message uw api s m = (RoundRun ev, s') \<and> \<not> list_ex is_stopped ev \<and>
           ai_conversation_turns s' = ai_conversation_turns s + 1 \<and> ready s' \<and>
           main_config s' = main_config s"
proof -
  let ?h = "add_message_to_history s m"
  let ?r = "trigger_ai_responses uw api ?h m True"
  have h: "ai_conversation_turns ?h < max_ai_conversation_turns (main_config ?h)"
    using assms(3) by (simp add: add_message_to_history_def)
  from assms have "process_message uw api s m = (RoundRun (fst ?r), snd ?r)"
    by (simp add: process_message_def trigger_ai_response_to_ai_message_def ready_def
        add_message_to_history_def split: prod.splits)
  moreover have "\<not> list_ex is_stopped (fst ?r)"
    using h by (rule autonomous_round_no_stop)
  moreover have "ai_conversation_turns (snd ?r) = ai_conversation_turns s + 1"
    "main_config (snd ?r) = main_config s"
    by (simp_all add: trigger_ai_responses_state add_message_to_history_def)
  moreover have "ready (snd ?r)"
    using assms(1) by (simp add: trigger_ai_responses_state add_message_to_history_def ready_def)
  ultimately show ?thesis by blast
qed

lemma process_message_at_limit:
  "\<not> infinite_loop s \<Longrightarrow> max_ai_conversation_turns (main_config s) \<le> ai_conversation_turns s \<Longrightarrow>
   process_message uw api s m = (NotTriggered, add_message_to_history s m)"
  by (simp add: process_message_def)

text \<open>
  From a state below the limit, a sequence of agent messages starts one round for each
  message until the counter reaches the limit and none afterwards, and no step puts a
  message about the limit on the queue: at the limit the test of the consumer already
  fails, and \<open>trigger_ai_response_to_ai_message\<close>, which holds the notice, is not called.
  A message of the user sets the counter to zero again.
\<close>

lemma turn_limit_rounds:
  "ready s \<Longrightarrow> \<forall>m\<in>set msgs. role m = ASSISTANT \<Longrightarrow>
   ai_conversation_turns s \<le> max_ai_conversation_turns (main_config s) \<Longrightarrow>
   process_messages uw api s msgs = (outs, s') \<Longrightarrow>
   length (filter is_round outs) =
     min (length msgs) (nat (max_ai_conversation_turns (main_config s) - ai_conversation_turns s)) \<and>
   filter announces_limit outs = [] \<and>
   ai_conversation_turns s' =
     min (ai_conversation_turns s + int (length msgs)) (max_ai_conversation_turns (main_config s))"
proof (induction msgs arbitrary: s outs s')
  case Nil
  then show ?case by simp
next
  case (Cons m msgs)
  obtain out s1 where step: "process_message uw api s m = (out, s1)"
    by (cases "process_message uw api s m")
  obtain outs1 s2 where rest: "process_messages uw api s1 msgs = (outs1, s2)"
    by (cases "process_messages uw api s1 msgs")
  from Cons.prems(4) step rest have res: "outs = out # outs1" "s' = s2" by simp_all
  from Cons.prems(2) have am: "role m = ASSISTANT" and all: "\<forall>m\<in>set msgs. role m = ASSISTANT"
    by simp_all
  show ?case
  proof (cases "ai_conversation_turns s < max_ai_conversation_turns (main_config s)")
    case True
    from process_message_below_limit [OF Cons.prems(1) am True, of uw api] step
    obtain ev where o: "out = RoundRun ev" "\<not> list_ex is_stopped ev"
      and s1: "ai_conversation_turns s1 = ai_conversation_turns s + 1" "ready s1"
        "main_config s1 = main_config s"
      by auto
    from True s1 have le: "ai_conversation_turns s1 \<le> max_ai_conversation_turns (main_config s1)"
      by simp
    from Cons.IH [OF s1(2) all le rest] s1 True o res show ?thesis
      by (auto simp: is_round_def announces_limit_def min_def)
  next
    case False
    with Cons.prems(3) have eq: "ai_conversation_turns s = max_ai_conversation_turns (main_config s)"
      by simp
    from Cons.prems(1) have ni: "\<not> infinite_loop s" by (simp add: ready_def)
    from process_message_at_limit [OF ni, of uw api m] eq step
    have o: "out = NotTriggered" and s1: "s1 = add_message_to_history s m" by simp_all
    from s1 Cons.prems(1) have r1: "ready s1"
      and t1: "ai_conversation_turns s1 = ai_conversation_turns s"
      and c1: "main_config s1 = main_config s"
      by (simp_all add: add_message_to_history_def ready_def)
    from eq t1 c1 have le: "ai_conversation_turns s1 \<le> max_ai_conversation_turns (main_config s1)"
      by simp
    from Cons.IH [OF r1 all le rest] t1 c1 eq o res show ?thesis
      by (auto simp: is_round_def announces_limit_def min_def)
  qed
qed

lemma send_message_resets:
  "strip entry \<noteq> [] \<Longrightarrow> ai_conversation_turns (snd (send_message uw s entry name_entry)) = 0"
  by (simp add: send_message_def Let_def split: prod.splits)

text \<open>
  Claim C5 on the code, at a limit of two turns and three agent messages: two rounds run,
  the third message starts none, the counter stays at two, and neither a step nor the
  queue holds a message about the limit. The one notice of the claim is missing.
\<close>

theorem turn_limit_without_notice:
  "map is_round
     (fst (process_messages no_unicode_word flaky_api (with_max_turns 2)
        [says ASSISTANT ''Bob'' ''hi'' None, says ASSISTANT ''Bob'' ''hi'' None,
         says ASSISTANT ''Bob'' ''hi'' None])) = [True, True, False]
   \<and> filter announces_limit
     (fst (process_messages no_unicode_word flaky_api (with_max_turns 2)
        [says ASSISTANT ''Bob'' ''hi'' None, says ASSISTANT ''Bob'' ''hi'' None,
         says ASSISTANT ''Bob'' ''hi'' None])) = []
   \<and> filter is_limit_notice
     (message_queue (snd (process_messages no_unicode_word flaky_api (with_max_turns 2)
        [says ASSISTANT ''Bob'' ''hi'' None, says ASSISTANT ''Bob'' ''hi'' None,
         says ASSISTANT ''Bob'' ''hi'' None]))) = []
   \<and> ai_conversation_turns
     (snd (process_messages no_unicode_word flaky_api (with_max_turns 2)
        [says ASSISTANT ''Bob'' ''hi'' None, says ASSISTANT ''Bob'' ''hi'' None,
         says ASSISTANT ''Bob'' ''hi'' None])) = 2"
  by (simp add: process_message_def trigger_ai_response_to_ai_message_def
      trigger_ai_responses_def add_message_to_history_def with_max_turns_fields
      responding_robots_def respond_one_def flaky_api_def example_robots_def says_def asc_def
      truthy_def robot_Ann_def robot_Bob_def failure_message_def is_round_def
      announces_limit_def is_limit_notice_def startswith_def limit_reached_prefix_def
      response_failed_def Let_def)

section \<open>Confidentiality of the view: properties\<close>

text \<open>
  Every system message that the application writes is built without a target, and a
  reply of a robot is rebuilt as a message of the role \<open>ASSISTANT\<close>: in every state of a run
  no system message of the history or of the queue has a target.
\<close>

lemma system_untargeted_simps [simp]:
  "system_untargeted []"
  "system_untargeted (m # h) \<longleftrightarrow> (role m = SYSTEM \<longrightarrow> target m = None) \<and> system_untargeted h"
  "system_untargeted (h @ h') \<longleftrightarrow> system_untargeted h \<and> system_untargeted h'"
  by (simp_all add: system_untargeted_def)

lemma system_untargeted_filter: "system_untargeted h \<Longrightarrow> system_untargeted (filter P h)"
  by (induction h) simp_all

lemma seed_loop_untargeted:
  "system_untargeted h \<Longrightarrow> system_untargeted (seed_loop info rs h)"
  by (induction rs arbitrary: h) (auto simp: persona_reminder_def roster_message_def)

lemma respond_one_untargeted: "system_untargeted (respond_one uw api s rn rc)"
  by (simp add: respond_one_def failure_message_def process_reply_def
      split: completion.splits list.splits prod.splits)

lemma respond_loop_untargeted:
  "system_untargeted (concat (map event_messages (respond_loop uw api s max_turns rs)))"
  by (induction rs) (auto simp: respond_one_untargeted limit_message_stopped_def)

lemma round_untargeted:
  assumes "system_untargeted (chat_history s)" "system_untargeted (message_queue s)"
  shows "system_untargeted (chat_history (snd (trigger_ai_responses uw api s m ai)))"
    and "system_untargeted (message_queue (snd (trigger_ai_responses uw api s m ai)))"
  using assms
  by (simp_all add: trigger_ai_responses_def Let_def respond_loop_untargeted)

lemma process_message_untargeted:
  assumes "system_untargeted (chat_history s)" "system_untargeted (message_queue s)"
    "role msg = SYSTEM \<longrightarrow> target msg = None"
  shows "system_untargeted (chat_history (snd (process_message uw api s msg)))"
    and "system_untargeted (message_queue (snd (process_message uw api s msg)))"
proof -
  let ?h = "add_message_to_history s msg"
  have h: "system_untargeted (chat_history ?h)" "system_untargeted (message_queue ?h)"
    using assms by (simp_all add: add_message_to_history_def)
  have t: "system_untargeted (chat_history (snd (trigger_ai_response_to_ai_message uw api ?h msg)))
         \<and> system_untargeted (message_queue (snd (trigger_ai_response_to_ai_message uw api ?h msg)))"
    using h round_untargeted [OF h, of uw api msg True]
    by (simp add: trigger_ai_response_to_ai_message_def Let_def limit_message_ask_user_def
        case_prod_beta)
  show "system_untargeted (chat_history (snd (process_message uw api s msg)))"
    using h t by (simp add: process_message_def Let_def)
  show "system_untargeted (message_queue (snd (process_message uw api s msg)))"
    using h t by (simp add: process_message_def Let_def)
qed

lemma send_message_untargeted:
  assumes "system_untargeted (chat_history s)" "system_untargeted (message_queue s)"
  shows "system_untargeted (chat_history (snd (send_message uw s entry name_entry)))"
    and "system_untargeted (message_queue (snd (send_message uw s entry name_entry)))"
  using assms by (simp_all add: send_message_def Let_def split: prod.splits)

lemma reachable_untargeted:
  "reachable uw s \<Longrightarrow>
   system_untargeted (chat_history s) \<and> system_untargeted (message_queue s)"
proof (induction rule: reachable.induct)
  case (start cfg)
  show ?case by (simp add: initial_state_def)
next
  case (load s all_robots)
  then show ?case
    by (simp add: load_all_robots_on_start_def seed_loop_untargeted split: prod.splits)
next
  case (send s entry name_entry)
  then show ?case by (simp add: send_message_untargeted)
next
  case (round s api last_message is_ai_message)
  then show ?case by (simp add: round_untargeted)
next
  case (consume s msg q api)
  then have "system_untargeted (chat_history (s\<lparr>message_queue := q\<rparr>))"
    "system_untargeted (message_queue (s\<lparr>message_queue := q\<rparr>))"
    "role msg = SYSTEM \<longrightarrow> target msg = None"
    by simp_all
  then show ?case by (simp add: process_message_untargeted)
next
  case (clear s)
  then show ?case by (simp add: clear_chat_def system_untargeted_filter)
next
  case (other s s')
  then show ?case by simp
qed

lemma view_confidential_if_untargeted:
  assumes "system_untargeted (chat_history s)" "m \<in> set (robot_view s rn rc)"
    "target m = Some b" "b \<noteq> rn"
  shows "name m = rn"
proof -
  from assms(2,3) have "m \<in> set (chat_history s)" "visible rn m"
    by (auto simp: robot_view_filter lead_message_fields)
  moreover from this(1) assms(1,3) have "role m \<noteq> SYSTEM"
    by (auto simp: system_untargeted_def list_all_iff)
  ultimately show ?thesis using assms(3,4) by (simp add: visible_def)
qed

text \<open>
  Claim C1. In every state of a run, a message in the view of the robot \<open>rn\<close> whose target
  is another name \<open>b\<close> was sent by \<open>rn\<close> itself: the view holds no message addressed to a
  third party.
\<close>

theorem robot_view_confidential:
  "reachable uw s \<Longrightarrow> m \<in> set (robot_view s rn rc) \<Longrightarrow> target m = Some b \<Longrightarrow> b \<noteq> rn
   \<Longrightarrow> name m = rn"
  using reachable_untargeted [of uw s] view_confidential_if_untargeted [of s m rn rc b]
  by blast

text \<open>
  A run in which Ann answers the user with a message for Bob: the message is in the view
  of Ann, who sent it.
\<close>

lemma example_state_reachable: "reachable uw example_state"
  unfolding example_state_def
  by (rule reachable.other [OF reachable.load [OF reachable.start]]) simp_all

lemma after_human_round_queue:
  "message_queue after_human_round = [says ASSISTANT ''Ann'' ''your view'' (Some ''Bob'')]"
  by (simp add: after_human_round_def trigger_ai_responses_def Let_def example_state_fields
      responding_robots_def example_robots_def respond_one_def addressing_api_def
      process_reply_def eval_parse says_def truthy_def robot_Ann_def robot_Bob_def
      startswith_def default_main_config_def)

lemma example_conversation_reachable: "reachable no_unicode_word example_conversation"
  unfolding example_conversation_def
proof (rule reachable.consume)
  show "reachable no_unicode_word after_human_round"
    unfolding after_human_round_def by (rule reachable.round [OF example_state_reachable])
  show "message_queue after_human_round = [says ASSISTANT ''Ann'' ''your view'' (Some ''Bob'')]"
    by (rule after_human_round_queue)
qed

lemma process_message_history:
  "chat_history (snd (process_message uw api s msg)) = chat_history s @ [msg]"
  by (simp add: process_message_def trigger_ai_response_to_ai_message_def Let_def
      trigger_ai_responses_state add_message_to_history_def case_prod_beta)

lemma example_conversation_history:
  "chat_history example_conversation =
     chat_history example_state @ [says ASSISTANT ''Ann'' ''your view'' (Some ''Bob'')]"
  by (simp add: example_conversation_def process_message_history after_human_round_def
      trigger_ai_responses_state)

theorem robot_view_confidential_witness:
  "reachable no_unicode_word example_conversation
   \<and> says ASSISTANT ''Ann'' ''your view'' (Some ''Bob'')
       \<in> set (robot_view example_conversation (asc ''Ann'') robot_Ann)
   \<and> target (says ASSISTANT ''Ann'' ''your view'' (Some ''Bob'')) = Some (asc ''Bob'')
   \<and> asc ''Bob'' \<noteq> asc ''Ann''
   \<and> name (says ASSISTANT ''Ann'' ''your view'' (Some ''Bob'')) = asc ''Ann''"
  using example_conversation_reachable
    robot_view_confidential [OF example_conversation_reachable,
      of "says ASSISTANT ''Ann'' ''your view'' (Some ''Bob'')" "asc ''Ann''" robot_Ann "asc ''Bob''"]
  by (simp add: robot_view_filter example_conversation_history visible_def says_def asc_def)

section \<open>Saving the configuration: properties\<close>

lemmas eval_form = example_form_def decimal_int_def asc_def

text \<open>
  Claim C7, as amended. With a valid timeout and a turn limit below one the call is
  rejected; the turn limit, the default robots and the user name keep their values, and
  the six entries written before the check (key, address, model, timeout, proxy and the
  permission for agent conversations) have the new values.
\<close>

theorem save_all_config_rejects_max_turns:
  "py_int (timeout_var form) = Some t \<Longrightarrow> 0 < t \<Longrightarrow>
   py_int (max_turns_var form) = Some n \<Longrightarrow> n < 1 \<Longrightarrow>
   save_all_config py_int client_ok all_robots form s =
     (InvalidMaxTurns,
      s\<lparr>main_config := (main_config s)
           \<lparr>api_key := api_key_var form, base_url := base_url_var form,
            model := model_var form, timeout := t, proxy := proxy_var form,
            allow_ai_conversations := allow_ai_conv_var form\<rparr>\<rparr>)
   \<and> max_ai_conversation_turns (main_config (snd (save_all_config py_int client_ok all_robots form s)))
       = max_ai_conversation_turns (main_config s)
   \<and> default_robots (main_config (snd (save_all_config py_int client_ok all_robots form s)))
       = default_robots (main_config s)
   \<and> user_name (main_config (snd (save_all_config py_int client_ok all_robots form s)))
       = user_name (main_config s)"
  by (simp add: save_all_config_def set_config_def Let_def)

text \<open>
  The form with the turn limit 0.
\<close>

theorem save_all_config_rejects_max_turns_witness:
  "decimal_int (timeout_var example_form) = Some 60 \<and> (0::int) < 60 \<and>
   decimal_int (max_turns_var example_form) = Some 0 \<and> (0::int) < 1 \<and>
   fst (save_all_config decimal_int accept_all example_robots example_form example_state) =
     InvalidMaxTurns \<and>
   max_ai_conversation_turns
     (main_config (snd (save_all_config decimal_int accept_all example_robots example_form
        example_state))) = max_ai_conversation_turns (main_config example_state)"
proof -
  have a: "decimal_int (timeout_var example_form) = Some 60"
    by (simp add: eval_form)
  have b: "decimal_int (max_turns_var example_form) = Some 0"
    by (simp add: eval_form)
  show ?thesis
    using a b save_all_config_rejects_max_turns [OF a _ b, of accept_all example_robots example_state]
    by simp
qed

text \<open>
  Claim C7 as stated fails where it says that nothing changes: the rejected call has
  changed the key and the timeout.
\<close>

theorem save_all_config_partially_applied:
  "fst (save_all_config decimal_int accept_all example_robots example_form example_state) =
     InvalidMaxTurns
   \<and> api_key (main_config (snd (save_all_config decimal_int accept_all example_robots
         example_form example_state))) = asc ''sk-new''
   \<and> api_key (main_config example_state) = []
   \<and> timeout (main_config (snd (save_all_config decimal_int accept_all example_robots
         example_form example_state))) = 60
   \<and> timeout (main_config example_state) = 30"
proof -
  have a: "decimal_int (timeout_var example_form) = Some 60"
    by (simp add: eval_form)
  have b: "decimal_int (max_turns_var example_form) = Some 0"
    by (simp add: eval_form)
  have c: "main_config example_state = default_main_config"
    by (simp add: example_state_def load_all_robots_on_start_def initial_state_def
        split: prod.splits)
  show ?thesis
    using a b c
    by (simp add: save_all_config_def set_config_def Let_def default_main_config_def)
       (simp add: example_form_def asc_def)
qed

end
